theory Spec2Isabelle
  imports Complex_Main
begin

section \<open>Columns, type families and compiled metric expressions\<close>

text \<open>
  A column handle is a name with a declared type. The metric functions only ask the type
  which family it belongs to.

  Modelled from the spec: \<^verbatim>\<open>is_quantifiable\<close>, \<^verbatim>\<open>is_concatenable\<close> and
  \<^verbatim>\<open>is_date_time\<close> of \<^verbatim>\<open>metadata/profiler/orm/registry.py\<close> are not part of the
  sources at hand. The specification classifies a column type into one of the families
  quantifiable, concatenable, date-time, other; the declared type is represented by its
  family.
\<close>

datatype type_family = Quantifiable | Concatenable | DateTime | OtherType

record Column =
  col_name :: string
  col_type :: type_family
  col_str :: string

definition is_quantifiable :: "type_family \<Rightarrow> bool" where
  "is_quantifiable t = (t = Quantifiable)"

definition is_concatenable :: "type_family \<Rightarrow> bool" where
  "is_concatenable t = (t = Concatenable)"

definition is_date_time :: "type_family \<Rightarrow> bool" where
  "is_date_time t = (t = DateTime)"

text \<open>
  The SQLAlchemy expressions the metrics build: \<^verbatim>\<open>column(name, type)\<close>, the length
  transform \<^verbatim>\<open>LenFn\<close>, the aggregates \<^verbatim>\<open>func.avg\<close>, \<^verbatim>\<open>SumFn\<close>, \<^verbatim>\<open>StdDevFn\<close>,
  \<^verbatim>\<open>MinFn\<close>, and \<^verbatim>\<open>.label(name)\<close>.
\<close>

datatype expr =
    column string type_family
  | LenFn expr
  | avg expr
  | SumFn expr
  | StdDevFn expr
  | MinFn expr
  | label expr string

text \<open>The metric classes whose definitions are in the sources.\<close>

datatype metric = MeanMetric | SumMetric | StdDevMetric | MinMetric

fun metric_name :: "metric \<Rightarrow> string" where
  "metric_name MeanMetric = ''mean''"
| "metric_name SumMetric = ''sum''"
| "metric_name StdDevMetric = ''stddev''"
| "metric_name MinMetric = ''min''"

text \<open>
  Modelled from the spec: the decorator \<^verbatim>\<open>_label\<close> and the class method
  \<^verbatim>\<open>is_window_metric\<close> of \<^verbatim>\<open>metadata/profiler/metrics/core.py\<close> are not part of the
  sources at hand. Following the specification (``compile must return not applicable for a
  column type it does not support''), \<^verbatim>\<open>_label\<close> names a compiled expression after the
  metric and hands an absent result through; the four metrics here are static, single-pass
  metrics, not window metrics.
\<close>

definition label_decorator :: "metric \<Rightarrow> expr option \<Rightarrow> expr option" where
  "label_decorator m res = (case res of Some e \<Rightarrow> Some (label e (metric_name m)) | None \<Rightarrow> None)"

definition is_window_metric :: "metric \<Rightarrow> bool" where
  "is_window_metric m = False"

text \<open>\<^verbatim>\<open>Mean.fn\<close>, \<^verbatim>\<open>Sum.fn\<close>, \<^verbatim>\<open>StdDev.fn\<close> and \<^verbatim>\<open>Min.fn\<close>, in the order of their tests.
  The debug lines they write to the module logger are not modelled.\<close>

definition Mean_fn :: "Column \<Rightarrow> expr option" where
  "Mean_fn c = label_decorator MeanMetric
     (if is_quantifiable (col_type c) then Some (avg (column (col_name c) (col_type c)))
      else if is_concatenable (col_type c) then Some (avg (LenFn (column (col_name c) (col_type c))))
      else None)"

definition Sum_fn :: "Column \<Rightarrow> expr option" where
  "Sum_fn c = label_decorator SumMetric
     (if is_quantifiable (col_type c) then Some (SumFn (column (col_name c) (col_type c)))
      else if is_concatenable (col_type c) then Some (SumFn (LenFn (column (col_name c) (col_type c))))
      else None)"

definition StdDev_fn :: "Column \<Rightarrow> expr option" where
  "StdDev_fn c = label_decorator StdDevMetric
     (if is_quantifiable (col_type c) then Some (StdDevFn (column (col_name c) (col_type c)))
      else if is_concatenable (col_type c) then Some (StdDevFn (LenFn (column (col_name c) (col_type c))))
      else None)"

definition Min_fn :: "Column \<Rightarrow> expr option" where
  "Min_fn c = label_decorator MinMetric
     (if is_concatenable (col_type c) then Some (MinFn (LenFn (column (col_name c) (col_type c))))
      else if (\<not> is_quantifiable (col_type c)) \<and> (\<not> is_date_time (col_type c)) then None
      else Some (MinFn (column (col_name c) (col_type c))))"

text \<open>\<^verbatim>\<open>metric(column).fn()\<close>.\<close>

fun metric_fn :: "metric \<Rightarrow> Column \<Rightarrow> expr option" where
  "metric_fn MeanMetric c = Mean_fn c"
| "metric_fn SumMetric c = Sum_fn c"
| "metric_fn StdDevMetric c = StdDev_fn c"
| "metric_fn MinMetric c = Min_fn c"

text \<open>The type families for which a metric's \<^verbatim>\<open>fn\<close> has a branch that builds an expression.\<close>

fun supports :: "metric \<Rightarrow> type_family \<Rightarrow> bool" where
  "supports MinMetric t = (t = Concatenable \<or> t = Quantifiable \<or> t = DateTime)"
| "supports m t = (t = Quantifiable \<or> t = Concatenable)"


section \<open>Values, rows and the engine's evaluation of a compiled expression\<close>

datatype "value" = VNull | VInt int | VReal real | VText string
  | VList "value list" | VDict "(string \<times> value) list"

type_synonym row = "(string \<times> value) list"

type_synonym pydict = "string \<rightharpoonup> value"

text \<open>
  Modelled from the spec: \<^verbatim>\<open>LenFn\<close> (\<^verbatim>\<open>metadata/profiler/orm/functions/length.py\<close>) and
  \<^verbatim>\<open>SumFn\<close> are not part of the sources at hand, and the aggregates are evaluated by the
  database engine. The specification describes the length transform followed by the numeric
  aggregate (mean length, sum of length); the evaluation below is the usual SQL reading:
  \<^verbatim>\<open>LENGTH\<close> of a text is its number of characters, aggregates skip nulls, and an
  aggregate over no value is null.
\<close>

fun num_of :: "value \<Rightarrow> real option" where
  "num_of (VInt i) = Some (real_of_int i)"
| "num_of (VReal x) = Some x"
| "num_of v = None"

fun eval_scalar :: "expr \<Rightarrow> row \<Rightarrow> value" where
  "eval_scalar (column n t) r = (case map_of r n of Some v \<Rightarrow> v | None \<Rightarrow> VNull)"
| "eval_scalar (LenFn e) r = (case eval_scalar e r of VText s \<Rightarrow> VInt (int (length s)) | v \<Rightarrow> VNull)"
| "eval_scalar (label e l) r = eval_scalar e r"
| "eval_scalar e r = VNull"

definition nums :: "expr \<Rightarrow> row list \<Rightarrow> real list" where
  "nums e rs = List.map_filter (\<lambda>r. num_of (eval_scalar e r)) rs"

fun eval_aggregate :: "expr \<Rightarrow> row list \<Rightarrow> value" where
  "eval_aggregate (label e l) rs = eval_aggregate e rs"
| "eval_aggregate (avg e) rs =
     (if nums e rs = [] then VNull else VReal (sum_list (nums e rs) / real (length (nums e rs))))"
| "eval_aggregate (SumFn e) rs =
     (if nums e rs = [] then VNull else VReal (sum_list (nums e rs)))"
| "eval_aggregate (MinFn e) rs =
     (if nums e rs = [] then VNull else VReal (Min (set (nums e rs))))"
| "eval_aggregate (StdDevFn e) rs =
     (if nums e rs = [] then VNull
      else VReal (sqrt (sum_list (map (\<lambda>x. x * x) (nums e rs)) / real (length (nums e rs))
                        - (sum_list (nums e rs) / real (length (nums e rs)))\<^sup>2)))"
| "eval_aggregate e rs = VNull"

section \<open>The sampler\<close>

datatype Dialects = Athena | BigQuery | ClickHouse | Hive | Impala | MariaDB | MSSQL | MySQL
  | Presto | SQLite | Snowflake | Trino | OtherDialect string

datatype ProfileSampleType = PERCENTAGE | ROWS

text \<open>The sample size is a row count or a percentage; it is taken as a natural number.\<close>

record ProfileSampleConfig =
  cfg_profile_sample :: "nat option"
  cfg_profile_sample_type :: "ProfileSampleType option"

datatype PartitionIntervalType = COLUMN_VALUE | INTEGER_RANGE | TIME_UNIT | INGESTION_TIME

record PartitionProfilerConfig =
  partitionColumnName :: string
  partitionIntervalType :: PartitionIntervalType
  partitionValues :: "value list"
  partitionIntegerRangeStart :: int
  partitionIntegerRangeEnd :: int
  partitionInterval :: int
  partitionIntervalUnit :: string

text \<open>A table handle stands for the rows it reads: its name, its columns, its rows.\<close>

record Table =
  tablename :: string
  table_columns :: "string list"
  table_rows :: "row list"

text \<open>What \<^verbatim>\<open>client.execute\<close> returns for a statement: the cursor's description (absent
  where the source catches \<^verbatim>\<open>AttributeError\<close>), the keys and the rows.\<close>

record ResultProxy =
  cursor_description :: "string list option"
  result_keys :: "string list"
  result_rows :: "value list list"

text \<open>
  The session the sampler reads through. The engine supplies the random number of
  \<^verbatim>\<open>RandomNumFn()\<close> for the i-th row, decides which rows a native
  \<^verbatim>\<open>SAMPLE BERNOULLI (p)\<close> keeps, gives the start of a time window, and answers a literal
  statement.
\<close>

record Client =
  client_dialect :: Dialects
  RandomNumFn :: "nat \<Rightarrow> nat"
  sample_bernoulli :: "nat \<Rightarrow> nat \<Rightarrow> bool"
  window_start :: "int \<Rightarrow> string \<Rightarrow> int"
  execute :: "string \<Rightarrow> ResultProxy"

record SQASampler =
  profile_sample :: "nat option"
  profile_sample_type :: "ProfileSampleType option"
  client :: Client
  table :: Table
  profile_sample_query :: "string option"
  sample_limit :: nat
  partition_details :: "PartitionProfilerConfig option"

record TableData =
  td_columns :: "string list"
  td_rows :: "value list list"

definition RANDOM_LABEL :: string where
  "RANDOM_LABEL = ''random''"

text \<open>\<^verbatim>\<open>SamplerInterface.__init__\<close>.\<close>

definition SamplerInterface_init ::
  "Client \<Rightarrow> Table \<Rightarrow> ProfileSampleConfig option \<Rightarrow> PartitionProfilerConfig option
     \<Rightarrow> string option \<Rightarrow> SQASampler" where
  "SamplerInterface_init cl t cfg pd q =
     \<lparr>profile_sample = (case cfg of Some c \<Rightarrow> cfg_profile_sample c | None \<Rightarrow> None),
      profile_sample_type = (case cfg of Some c \<Rightarrow> cfg_profile_sample_type c | None \<Rightarrow> None),
      client = cl, table = t, profile_sample_query = q, sample_limit = 100,
      partition_details = pd\<rparr>"

text \<open>Python's truth value of an optional number and of an optional string.\<close>

definition truthy_num :: "nat option \<Rightarrow> bool" where
  "truthy_num x = (case x of None \<Rightarrow> False | Some n \<Rightarrow> n \<noteq> 0)"

definition truthy_str :: "string option \<Rightarrow> bool" where
  "truthy_str x = (case x of None \<Rightarrow> False | Some q \<Rightarrow> q \<noteq> [])"

text \<open>
  Modelled from the spec: \<^verbatim>\<open>ModuloFn\<close> (\<^verbatim>\<open>metadata/profiler/orm/functions/modulo.py\<close>)
  is not part of the sources at hand; the specification names it the modulo primitive.
\<close>

definition ModuloFn :: "nat \<Rightarrow> nat \<Rightarrow> nat" where
  "ModuloFn a b = a mod b"

text \<open>
  Modelled from the spec: \<^verbatim>\<open>get_value_filter\<close>, \<^verbatim>\<open>get_integer_range_filter\<close>,
  \<^verbatim>\<open>build_query_filter\<close> and \<^verbatim>\<open>dispatch_to_date_or_datetime\<close> of
  \<^verbatim>\<open>metadata/utils/sqa_utils.py\<close> are not part of the sources at hand. The specification
  has them restrict to rows matching a column-value set, an integer range, or a time window
  relative to a unit and an interval.
\<close>

definition get_value_filter :: "string \<Rightarrow> value list \<Rightarrow> row \<Rightarrow> bool" where
  "get_value_filter c vs r = (case map_of r c of Some v \<Rightarrow> v \<in> set vs | None \<Rightarrow> False)"

definition get_integer_range_filter :: "string \<Rightarrow> int \<Rightarrow> int \<Rightarrow> row \<Rightarrow> bool" where
  "get_integer_range_filter c lo hi r =
     (case map_of r c of Some (VInt v) \<Rightarrow> lo \<le> v \<and> v \<le> hi | _ \<Rightarrow> False)"

definition build_query_filter_ge :: "string \<Rightarrow> int \<Rightarrow> row \<Rightarrow> bool" where
  "build_query_filter_ge c start r =
     (case map_of r c of Some (VInt v) \<Rightarrow> start \<le> v | _ \<Rightarrow> False)"

text \<open>\<^verbatim>\<open>SQASampler._partitioned_table\<close>, for the partition details it casts and reads: the
  rows of the table that pass the filter of the configured interval type, the time window
  being the last case.\<close>

definition partition_filter :: "Client \<Rightarrow> PartitionProfilerConfig \<Rightarrow> row \<Rightarrow> bool" where
  "partition_filter cl pd =
     (if partitionIntervalType pd = COLUMN_VALUE
        then get_value_filter (partitionColumnName pd) (partitionValues pd)
      else if partitionIntervalType pd = INTEGER_RANGE
        then get_integer_range_filter (partitionColumnName pd)
               (partitionIntegerRangeStart pd) (partitionIntegerRangeEnd pd)
      else build_query_filter_ge (partitionColumnName pd)
             (window_start cl (partitionInterval pd) (partitionIntervalUnit pd)))"

definition partitioned_table :: "SQASampler \<Rightarrow> PartitionProfilerConfig \<Rightarrow> row list" where
  "partitioned_table s pd = filter (partition_filter (client s) pd) (table_rows (table s))"

text \<open>
  The body of \<^verbatim>\<open>SQASampler.get_sample_query\<close>. The common table expression it builds is
  the list of the selected rows, each with its \<^verbatim>\<open>random\<close> label. In percentage mode the
  Snowflake dialect alone carries the \<^verbatim>\<open>SAMPLE BERNOULLI\<close> suffix; a comparison with an
  absent sample size selects nothing. In row-count mode the rows are counted first, labelled
  modulo that count, ordered by the label and limited.
\<close>

definition get_sample_query_body :: "SQASampler \<Rightarrow> (row \<times> nat) list" where
  "get_sample_query_body s =
     (if profile_sample_type s = Some PERCENTAGE then
        (let p100 = (case profile_sample s of None \<Rightarrow> 100 | Some p \<Rightarrow> if p = 0 then 100 else p);
             rnd = [(r, ModuloFn (RandomNumFn (client s) i) 100).
                      (i, r) \<leftarrow> enumerate 0 (table_rows (table s)),
                      if client_dialect (client s) = Snowflake
                      then sample_bernoulli (client s) p100 i else True]
         in (case profile_sample s of
               None \<Rightarrow> []
             | Some p \<Rightarrow> filter (\<lambda>(r, l). l \<le> p) rnd))
      else
        (let count = length (table_rows (table s));
             labelled = [(r, ModuloFn (RandomNumFn (client s) i) count).
                           (i, r) \<leftarrow> enumerate 0 (table_rows (table s))];
             ordered = sort_key snd labelled
         in (case profile_sample s of
               None \<Rightarrow> ordered
             | Some n \<Rightarrow> take n ordered)))"

text \<open>
  Modelled from the spec: the decorator \<^verbatim>\<open>partition_filter_handler\<close> of
  \<^verbatim>\<open>metadata/profiler/processor/handle_partition.py\<close> is not part of the sources at hand.
  The specification says of partition mode: ``before random sampling, restrict to rows
  matching a column-value set, an integer range, or a time window; this filter composes
  with, and is applied prior to, any row/percentage sampling''. With no partition
  configured the decorated function runs as it is.
\<close>

definition partition_filter_handler :: "(SQASampler \<Rightarrow> 'a) \<Rightarrow> SQASampler \<Rightarrow> 'a" where
  "partition_filter_handler f s =
     (case partition_details s of
        None \<Rightarrow> f s
      | Some pd \<Rightarrow>
          f (s\<lparr>table := (table s)\<lparr>table_rows :=
                 filter (partition_filter (client s) pd) (table_rows (table s))\<rparr>\<rparr>))"

definition get_sample_query :: "SQASampler \<Rightarrow> (row \<times> nat) list" where
  "get_sample_query = partition_filter_handler get_sample_query_body"

text \<open>\<^verbatim>\<open>aliased(self.table, sampled)\<close> reads the table's columns off the sampled rows.\<close>

definition aliased :: "(row \<times> nat) list \<Rightarrow> row list" where
  "aliased sampled = map fst sampled"

text \<open>The text of \<^verbatim>\<open>f"{self._profile_sample_query}"\<close>.\<close>

definition query_text :: "SQASampler \<Rightarrow> string" where
  "query_text s = (case profile_sample_query s of Some q \<Rightarrow> q | None \<Rightarrow> ''None'')"

definition rdn_sample_from_user_query :: "SQASampler \<Rightarrow> row list" where
  "rdn_sample_from_user_query s =
     (let res = execute (client s) (query_text s)
      in map (zip (result_keys res)) (result_rows res))"

definition random_sample :: "SQASampler \<Rightarrow> row list" where
  "random_sample s =
     (if truthy_str (profile_sample_query s) then rdn_sample_from_user_query s
      else if \<not> truthy_num (profile_sample s) then
        (case partition_details s of
           Some pd \<Rightarrow> partitioned_table s pd
         | None \<Rightarrow> table_rows (table s))
      else aliased (get_sample_query s))"

definition fetch_sample_data_from_user_query :: "SQASampler \<Rightarrow> TableData" where
  "fetch_sample_data_from_user_query s =
     (let rnd = execute (client s) (query_text s);
          columns = (case cursor_description rnd of Some d \<Rightarrow> d | None \<Rightarrow> result_keys rnd)
      in \<lparr>td_columns = columns, td_rows = take 100 (result_rows rnd)\<rparr>)"

definition fetch_sample_data :: "SQASampler \<Rightarrow> TableData" where
  "fetch_sample_data s =
     (if truthy_str (profile_sample_query s) then fetch_sample_data_from_user_query s
      else
        (let rnd = get_sample_query s;
             sqa_columns = filter (\<lambda>c. c \<noteq> RANDOM_LABEL) (table_columns (table s))
         in \<lparr>td_columns = sqa_columns,
             td_rows = map (\<lambda>(r, l). map (\<lambda>c. eval_scalar (column c OtherType) r) sqa_columns)
                         (take (sample_limit s) rnd)\<rparr>))"


section \<open>Compilation of the median function\<close>

text \<open>
  A \<^verbatim>\<open>MedianFn\<close> element has three clauses: the column, the table name and the percentile.
  The compile functions read the compiled text of the column, the table name, and the
  percentile in three renderings: by \<^verbatim>\<open>"%.2f" % percentile\<close>, by \<^verbatim>\<open>str.format\<close>, and as
  the compiler processes the clause. Python's formatting of a float is not modelled: the
  element carries the three texts. For ClickHouse the column's type is asked whether it is
  \<^verbatim>\<open>DECIMAL\<close>.
\<close>

record MedianFn =
  med_col :: string
  med_table :: string
  med_percentile_2f :: string
  med_percentile_str :: string
  med_percentile_sql :: string
  med_col_is_decimal :: bool

text \<open>A triple-quoted text: every line of it follows a line break.\<close>

definition text_lines :: "string list \<Rightarrow> string" where
  "text_lines ls = concat (map (\<lambda>l. CHR 0x0A # l) ls)"

definition compile_default :: "MedianFn \<Rightarrow> string" where
  "compile_default e =
     ''percentile_cont('' @ med_percentile_2f e @ '') WITHIN GROUP (ORDER BY '' @ med_col e @ '' ASC)''"

definition compile_BigQuery :: "MedianFn \<Rightarrow> string" where
  "compile_BigQuery e =
     ''percentile_cont('' @ med_col e @ '' , '' @ med_percentile_sql e @ '') OVER()''"

definition compile_ClickHouse :: "MedianFn \<Rightarrow> string" where
  "compile_ClickHouse e =
     (let quantile_str = ''quantile('' @ med_percentile_sql e @ '')('' @ med_col e @ '')'';
          null_check = (if med_col_is_decimal e then ''isNull'' else ''isNaN'')
      in ''if('' @ null_check @ ''('' @ quantile_str @ ''), null, '' @ quantile_str @ '')'')"

definition compile_Athena_Trino_Presto :: "MedianFn \<Rightarrow> string" where
  "compile_Athena_Trino_Presto e =
     ''approx_percentile('' @ med_col e @ '', '' @ med_percentile_2f e @ '')''"

definition compile_MSSQL :: "MedianFn \<Rightarrow> string" where
  "compile_MSSQL e =
     ''percentile_cont('' @ med_percentile_2f e @ '') WITHIN GROUP (ORDER BY '' @ med_col e
       @ '' ASC) OVER()''"

definition compile_Hive :: "MedianFn \<Rightarrow> string" where
  "compile_Hive e =
     ''percentile(cast('' @ med_col e @ '' as BIGINT), '' @ med_percentile_sql e @ '')''"

definition compile_Impala :: "MedianFn \<Rightarrow> string" where
  "compile_Impala e =
     ''if('' @ med_percentile_sql e @ '' = .5, appx_median('' @ med_col e @ ''), null)''"

definition compile_MySQL :: "MedianFn \<Rightarrow> string" where
  "compile_MySQL e = text_lines
     [''    (SELECT'',
      ''        '' @ med_col e,
      ''    FROM ('',
      ''        SELECT'',
      ''            '' @ med_col e @ '', '',
      ''            ROW_NUMBER() OVER () AS row_num'',
      ''        FROM '',
      ''            '' @ med_table e @ '','',
      ''            (SELECT @counter := COUNT(*) FROM '' @ med_table e @ '') t_count '',
      ''        ORDER BY '' @ med_col e,
      ''        ) temp'',
      ''    WHERE temp.row_num = ROUND('' @ med_percentile_str e @ '' * @counter)'',
      ''    )'',
      ''    '']"

definition compile_SQLite :: "MedianFn \<Rightarrow> string" where
  "compile_SQLite e = text_lines
     [''    (SELECT '',
      ''        '' @ med_col e,
      ''    FROM '' @ med_table e,
      ''    WHERE '' @ med_col e @ '' IS NOT NULL'',
      ''    ORDER BY '' @ med_col e,
      ''    LIMIT 1'',
      ''    OFFSET ('',
      ''            SELECT ROUND(COUNT(*) * '' @ med_percentile_str e @ '' -1)'',
      ''            FROM '' @ med_table e,
      ''            WHERE '' @ med_col e @ '' IS NOT NULL'',
      ''        )'',
      ''    )'',
      ''    '']"

text \<open>The registrations \<^verbatim>\<open>@compiles(MedianFn, dialect)\<close>: the function registered for
  the dialect, and the unqualified one for every dialect that has none.\<close>

fun compile_MedianFn :: "Dialects \<Rightarrow> MedianFn \<Rightarrow> string" where
  "compile_MedianFn BigQuery e = compile_BigQuery e"
| "compile_MedianFn ClickHouse e = compile_ClickHouse e"
| "compile_MedianFn Athena e = compile_Athena_Trino_Presto e"
| "compile_MedianFn Trino e = compile_Athena_Trino_Presto e"
| "compile_MedianFn Presto e = compile_Athena_Trino_Presto e"
| "compile_MedianFn MSSQL e = compile_MSSQL e"
| "compile_MedianFn Hive e = compile_Hive e"
| "compile_MedianFn Impala e = compile_Impala e"
| "compile_MedianFn MySQL e = compile_MySQL e"
| "compile_MedianFn SQLite e = compile_SQLite e"
| "compile_MedianFn d e = compile_default e"

text \<open>
  The number the SQLite text asks the engine to skip,
  \<^verbatim>\<open>ROUND(COUNT(*) * {percentile} -1)\<close>, over a column with \<open>count\<close> values that are not
  null. SQLite's \<^verbatim>\<open>ROUND\<close> rounds a half away from zero.
\<close>

definition sql_round :: "real \<Rightarrow> int" where
  "sql_round x = (if 0 \<le> x then \<lfloor>x + 1 / 2\<rfloor> else - \<lfloor>- x + 1 / 2\<rfloor>)"

definition sqlite_offset :: "nat \<Rightarrow> real \<Rightarrow> int" where
  "sqlite_offset count percentile = sql_round (real count * percentile - 1)"


section \<open>Status of the processor\<close>







section \<open>The profiler interface\<close>

text \<open>
  The exceptions the interface meets. A \<^verbatim>\<open>ProgrammingError\<close> carries the driver's
  exception \<^verbatim>\<open>orig\<close>: absent, present without an \<^verbatim>\<open>errno\<close> attribute, or present with
  one. \<^verbatim>\<open>RuntimeError(exc)\<close> wraps the exception it was raised for.
\<close>

datatype orig = NoOrig | OrigNoErrno | OrigErrno int

datatype exc =
    ProgrammingError orig string
  | DatabaseError string
  | TypeError string
  | AttributeError string
  | IndexError string
  | KeyError string
  | UnboundLocalError string
  | TimeoutError
  | RuntimeError exc

fun exc_str :: "exc \<Rightarrow> string" where
  "exc_str (ProgrammingError og m) = m"
| "exc_str (DatabaseError m) = m"
| "exc_str (TypeError m) = m"
| "exc_str (AttributeError m) = m"
| "exc_str (IndexError m) = m"
| "exc_str (KeyError m) = m"
| "exc_str (UnboundLocalError m) = m"
| "exc_str TimeoutError = []"
| "exc_str (RuntimeError e) = exc_str e"

text \<open>\<^verbatim>\<open>traceback.format_exc()\<close>: the text of the traceback is not modelled beyond the
  exception it ends with.\<close>

definition format_exc :: "exc \<Rightarrow> string" where
  "format_exc e = ''Traceback (most recent call last): '' @ exc_str e"

datatype level = DEBUG | INFO | WARNING | ERROR

type_synonym log = "(level \<times> string) list"

text \<open>A session: the name of the dialect it is bound to, and how often it was rolled back.\<close>

record Session =
  dialect_name :: string
  rollback_count :: nat

definition rollback :: "Session \<Rightarrow> Session" where
  "rollback session = session\<lparr>rollback_count := Suc (rollback_count session)\<rparr>"

text \<open>What a unit of work returns as its row: \<^verbatim>\<open>None\<close>, a dictionary, or the rows a system
  metric answers with.\<close>

datatype profile = PNone | PDict pydict | PRows "row list"

type_synonym outcome = "(exc + profile) \<times> Session \<times> log"

definition OVERFLOW_ERROR_CODES :: "string \<Rightarrow> int set option" where
  "OVERFLOW_ERROR_CODES d = (if d = ''snowflake'' then Some {100046, 100058} else None)"

definition handle_query_exception :: "string \<Rightarrow> exc \<Rightarrow> Session \<Rightarrow> log \<Rightarrow> outcome" where
  "handle_query_exception msg e session lg =
     (Inl (RuntimeError e), rollback session, lg @ [(DEBUG, format_exc e), (WARNING, msg)])"

text \<open>
  The query runner of a unit. Its class is not part of the sources at hand; the interface
  only calls it, and what the engine answers to a call is given: an exception, or the first
  row (absent when there is none), or all rows.
\<close>

record QueryRunner =
  runner_tablename :: string
  select_first_from_sample :: "expr option list \<Rightarrow> exc + row option"
  select_all_from_query :: "string \<Rightarrow> exc + row list"
  select_first_from_query :: "string \<Rightarrow> exc + row option"


datatype MetricTypes = Table | Static | Query | Window | System




definition column_msg :: "QueryRunner \<Rightarrow> Column \<Rightarrow> exc \<Rightarrow> string" where
  "column_msg runner c e =
     ''Error trying to compute profile for '' @ runner_tablename runner @ ''.'' @ col_name c
       @ '': '' @ exc_str e"


text \<open>\<^verbatim>\<open>dict(row)\<close> raises for an absent row; \<^verbatim>\<open>if row:\<close> holds for a row with a column.\<close>

definition dict_of_row :: "row option \<Rightarrow> exc + profile" where
  "dict_of_row r = (case r of None \<Rightarrow> Inl (TypeError ''NoneType object is not iterable'')
                            | Some kvs \<Rightarrow> Inr (PDict (map_of kvs)))"


text \<open>
  The test \<^verbatim>\<open>exc.orig and exc.orig.errno in OVERFLOW_ERROR_CODES.get(dialect)\<close> of the
  handlers of \<^verbatim>\<open>ProgrammingError\<close>. It raises itself when the driver's exception has no
  \<^verbatim>\<open>errno\<close> or the dialect has no entry.
\<close>

definition is_overflow :: "orig \<Rightarrow> Session \<Rightarrow> exc + bool" where
  "is_overflow og session =
     (case og of
        NoOrig \<Rightarrow> Inr False
      | OrigNoErrno \<Rightarrow> Inl (AttributeError ''object has no attribute errno'')
      | OrigErrno n \<Rightarrow>
          (case OVERFLOW_ERROR_CODES (dialect_name session) of
             None \<Rightarrow> Inl (TypeError ''argument of type NoneType is not iterable'')
           | Some codes \<Rightarrow> Inr (n \<in> codes)))"

text \<open>\<^verbatim>\<open>_compute_static_metrics_wo_sum\<close>.\<close>

definition wo_sum_entities :: "metric list \<Rightarrow> Column \<Rightarrow> expr option list" where
  "wo_sum_entities ms c =
     [metric_fn m c. m \<leftarrow> ms,
        \<not> is_window_metric m \<and> m \<notin> {SumMetric, StdDevMetric, MeanMetric}]"

definition compute_static_metrics_wo_sum ::
  "metric list \<Rightarrow> QueryRunner \<Rightarrow> Session \<Rightarrow> Column \<Rightarrow> log \<Rightarrow> outcome" where
  "compute_static_metrics_wo_sum ms runner session c lg =
     (case select_first_from_sample runner (wo_sum_entities ms c) of
        Inl e \<Rightarrow> handle_query_exception (column_msg runner c e) e session lg
      | Inr r \<Rightarrow>
          (case dict_of_row r of
             Inl e \<Rightarrow> handle_query_exception (column_msg runner c e) e session lg
           | Inr d \<Rightarrow> (Inr d, session, lg)))"


definition static_entities :: "metric list \<Rightarrow> Column \<Rightarrow> expr option list" where
  "static_entities ms c = [metric_fn m c. m \<leftarrow> ms, \<not> is_window_metric m]"

definition get_metrics_Static ::
  "metric list \<Rightarrow> QueryRunner \<Rightarrow> Session \<Rightarrow> Column \<Rightarrow> log \<Rightarrow> outcome" where
  "get_metrics_Static ms runner session c lg =
     (case select_first_from_sample runner (static_entities ms c) of
        Inr r \<Rightarrow>
          (case dict_of_row r of
             Inl e \<Rightarrow> handle_query_exception (column_msg runner c e) e session lg
           | Inr d \<Rightarrow> (Inr d, session, lg))
      | Inl e \<Rightarrow>
          (case e of
             ProgrammingError og m \<Rightarrow>
               (case is_overflow og session of
                  Inl e' \<Rightarrow> (Inl e', session, lg)
                | Inr True \<Rightarrow>
                    compute_static_metrics_wo_sum ms runner session c
                      (lg @ [(INFO, ''Computing metrics without sum for ''
                                     @ runner_tablename runner @ ''.'' @ col_name c)])
                | Inr False \<Rightarrow> (Inr PNone, session, lg))
           | _ \<Rightarrow> handle_query_exception (column_msg runner c e) e session lg))"











section \<open>Aggregation of the results\<close>














section \<open>Reading compiled statements and results\<close>

text \<open>The labels of the compiled expressions a statement selects; an absent expression has
  none.\<close>

fun label_of :: "expr \<Rightarrow> string option" where
  "label_of (label e l) = Some l"
| "label_of e = None"

definition entity_labels :: "expr option list \<Rightarrow> string list" where
  "entity_labels es = List.map_filter (\<lambda>eo. case eo of Some e \<Rightarrow> label_of e | None \<Rightarrow> None) es"

text \<open>The dictionary a unit returned, if it returned one, and its value at a key.\<close>

definition returned_dict :: "outcome \<Rightarrow> pydict option" where
  "returned_dict out = (case fst out of Inr (PDict d) \<Rightarrow> Some d | _ \<Rightarrow> None)"

definition returned_key :: "outcome \<Rightarrow> string \<Rightarrow> value option" where
  "returned_key out k = (case returned_dict out of Some d \<Rightarrow> d k | None \<Rightarrow> None)"






text \<open>The offset of the SQLite text as the specification words it:
  \<^verbatim>\<open>OFFSET round(count*p)\<close>.\<close>

definition spec_sqlite_offset :: "nat \<Rightarrow> real \<Rightarrow> int" where
  "spec_sqlite_offset count percentile = sql_round (real count * percentile)"

text \<open>What the engine answers for a compiled expression, if there is one.\<close>

definition evaluate :: "expr option \<Rightarrow> row list \<Rightarrow> value option" where
  "evaluate eo rs = (case eo of Some e \<Rightarrow> Some (eval_aggregate e rs) | None \<Rightarrow> None)"

section \<open>Inputs of the examples\<close>

definition name_column :: Column where
  "name_column = \<lparr>col_name = ''name'', col_type = Concatenable, col_str = ''users.name''\<rparr>"

definition id_column :: Column where
  "id_column = \<lparr>col_name = ''id'', col_type = Quantifiable, col_str = ''users.id''\<rparr>"

definition created_column :: Column where
  "created_column =
     \<lparr>col_name = ''created_at'', col_type = DateTime, col_str = ''users.created_at''\<rparr>"

definition names_rows :: "row list" where
  "names_rows = [[(''name'', VText ''a'')], [(''name'', VText ''bb'')], [(''name'', VText ''ccc'')]]"

definition plain_session :: Session where
  "plain_session = \<lparr>dialect_name = ''sqlite'', rollback_count = 0\<rparr>"

definition snowflake_session :: Session where
  "snowflake_session = \<lparr>dialect_name = ''snowflake'', rollback_count = 0\<rparr>"


definition users_rows :: "row list" where
  "users_rows = [[(''id'', VInt 1)], [(''id'', VInt 2)], [(''id'', VInt 3)]]"

definition users_table :: Table where
  "users_table = \<lparr>tablename = ''users'', table_columns = [''id''], table_rows = users_rows\<rparr>"

definition query_answer :: "string \<Rightarrow> ResultProxy" where
  "query_answer q = \<lparr>cursor_description = Some [''id''], result_keys = [''id''],
                      result_rows = [[VInt 7], [VInt 8]]\<rparr>"

definition steady_random :: "nat \<Rightarrow> nat" where
  "steady_random i = 5 - i"

definition keep_all :: "nat \<Rightarrow> nat \<Rightarrow> bool" where
  "keep_all p i = True"

definition epoch_window :: "int \<Rightarrow> string \<Rightarrow> int" where
  "epoch_window n u = 0"

definition sqlite_client :: Client where
  "sqlite_client = \<lparr>client_dialect = SQLite, RandomNumFn = steady_random,
      sample_bernoulli = keep_all, window_start = epoch_window, execute = query_answer\<rparr>"

definition id_range :: PartitionProfilerConfig where
  "id_range = \<lparr>partitionColumnName = ''id'', partitionIntervalType = INTEGER_RANGE,
      partitionValues = [], partitionIntegerRangeStart = 2, partitionIntegerRangeEnd = 3,
      partitionInterval = 0, partitionIntervalUnit = ''DAY''\<rparr>"

definition partitioned_sampler :: SQASampler where
  "partitioned_sampler = SamplerInterface_init sqlite_client users_table
      (Some \<lparr>cfg_profile_sample = Some 1, cfg_profile_sample_type = Some ROWS\<rparr>)
      (Some id_range) None"

definition partitioned_three_sampler :: SQASampler where
  "partitioned_three_sampler = SamplerInterface_init sqlite_client users_table
      (Some \<lparr>cfg_profile_sample = Some 3, cfg_profile_sample_type = Some ROWS\<rparr>)
      (Some id_range) None"

definition query_sampler :: SQASampler where
  "query_sampler = SamplerInterface_init sqlite_client users_table
      (Some \<lparr>cfg_profile_sample = Some 1, cfg_profile_sample_type = Some ROWS\<rparr>)
      (Some id_range) (Some ''SELECT id FROM users WHERE id > 6'')"

definition zero_rows_sampler :: SQASampler where
  "zero_rows_sampler = SamplerInterface_init sqlite_client users_table
      (Some \<lparr>cfg_profile_sample = Some 0, cfg_profile_sample_type = Some ROWS\<rparr>) None None"

definition two_rows_sampler :: SQASampler where
  "two_rows_sampler = SamplerInterface_init sqlite_client users_table
      (Some \<lparr>cfg_profile_sample = Some 2, cfg_profile_sample_type = Some ROWS\<rparr>) None None"

definition id_median :: MedianFn where
  "id_median = \<lparr>med_col = ''id'', med_table = ''users'', med_percentile_2f = ''0.50'',
      med_percentile_str = ''0.5'', med_percentile_sql = ''0.5'', med_col_is_decimal = False\<rparr>"

text \<open>
  Example runners. Each answers a statement with a row that has the value 1 under the label
  of every expression that is present. The tolerant one answers every statement; the strict
  one rejects a statement with an absent expression; the overflowing one raises Snowflake's
  overflow error for a statement with a sum, a mean or a deviation; the rejecting one
  raises a compilation error that is no overflow for every statement; the failing one
  raises an error of the connection.
\<close>

definition labelled_ones :: "expr option list \<Rightarrow> row" where
  "labelled_ones es = map (\<lambda>l. (l, VInt 1)) (entity_labels es)"

fun sums_up :: "expr \<Rightarrow> bool" where
  "sums_up (label e l) = sums_up e"
| "sums_up (avg e) = True"
| "sums_up (SumFn e) = True"
| "sums_up (StdDevFn e) = True"
| "sums_up e = False"

definition sums_up_entity :: "expr option \<Rightarrow> bool" where
  "sums_up_entity eo = (case eo of Some e \<Rightarrow> sums_up e | None \<Rightarrow> False)"

definition overflow_error :: exc where
  "overflow_error = ProgrammingError (OrigErrno 100046) ''Numeric value is out of range''"

definition object_missing :: exc where
  "object_missing =
     ProgrammingError (OrigErrno 2003) ''SQL compilation error: object does not exist''"

definition connection_reset :: exc where
  "connection_reset = DatabaseError ''connection reset''"

definition none_rejected :: exc where
  "none_rejected = DatabaseError ''Column expression expected, got None''"

definition tolerant_select :: "expr option list \<Rightarrow> exc + row option" where
  "tolerant_select es = Inr (Some (labelled_ones es))"

definition strict_select :: "expr option list \<Rightarrow> exc + row option" where
  "strict_select es = (if None \<in> set es then Inl none_rejected else Inr (Some (labelled_ones es)))"

definition overflow_select :: "expr option list \<Rightarrow> exc + row option" where
  "overflow_select es =
     (if filter sums_up_entity es = [] then Inr (Some (labelled_ones es)) else Inl overflow_error)"

definition no_rows :: "string \<Rightarrow> exc + row list" where
  "no_rows q = Inr []"

definition no_row :: "string \<Rightarrow> exc + row option" where
  "no_row q = Inr None"

definition tolerant_runner :: QueryRunner where
  "tolerant_runner = \<lparr>runner_tablename = ''users'', select_first_from_sample = tolerant_select,
      select_all_from_query = no_rows, select_first_from_query = no_row\<rparr>"

definition strict_runner :: QueryRunner where
  "strict_runner = \<lparr>runner_tablename = ''users'', select_first_from_sample = strict_select,
      select_all_from_query = no_rows, select_first_from_query = no_row\<rparr>"

definition overflow_runner :: QueryRunner where
  "overflow_runner = \<lparr>runner_tablename = ''users'', select_first_from_sample = overflow_select,
      select_all_from_query = no_rows, select_first_from_query = no_row\<rparr>"

definition rejecting_select :: "expr option list \<Rightarrow> exc + row option" where
  "rejecting_select es = Inl object_missing"

definition failing_select :: "expr option list \<Rightarrow> exc + row option" where
  "failing_select es = Inl connection_reset"

definition rejecting_runner :: QueryRunner where
  "rejecting_runner = \<lparr>runner_tablename = ''users'', select_first_from_sample = rejecting_select,
      select_all_from_query = no_rows, select_first_from_query = no_row\<rparr>"

definition failing_runner :: QueryRunner where
  "failing_runner = \<lparr>runner_tablename = ''users'', select_first_from_sample = failing_select,
      select_all_from_query = no_rows, select_first_from_query = no_row\<rparr>"

definition all_static :: "metric list" where
  "all_static = [MeanMetric, MinMetric, SumMetric, StdDevMetric]"

definition overflow_outcome :: outcome where
  "overflow_outcome = get_metrics_Static all_static overflow_runner snowflake_session id_column []"









section \<open>Properties of the metric functions\<close>

lemmas fn_defs = Mean_fn_def Sum_fn_def StdDev_fn_def Min_fn_def label_decorator_def
  is_quantifiable_def is_concatenable_def is_date_time_def

lemma metric_fn_None_iff: "metric_fn m c = None \<longleftrightarrow> \<not> supports m (col_type c)"
  by (cases m; cases "col_type c") (simp_all add: fn_defs)

lemma metric_fn_label: "metric_fn m c = Some e \<Longrightarrow> label_of e = Some (metric_name m)"
  by (cases m) (auto simp: fn_defs split: if_splits)

lemma entities_append:
  "static_entities (ms1 @ ms2) c = static_entities ms1 c @ static_entities ms2 c"
  "wo_sum_entities (ms1 @ ms2) c = wo_sum_entities ms1 c @ wo_sum_entities ms2 c"
  by (simp_all add: static_entities_def wo_sum_entities_def)

lemma entities_Cons:
  "static_entities (m # ms) c = metric_fn m c # static_entities ms c"
  "wo_sum_entities (m # ms) c =
     (if m \<in> {SumMetric, StdDevMetric, MeanMetric} then [] else [metric_fn m c])
       @ wo_sum_entities ms c"
  by (simp_all add: static_entities_def wo_sum_entities_def is_window_metric_def)

lemmas example_runner_defs = tolerant_runner_def tolerant_select_def strict_runner_def
  strict_select_def overflow_runner_def overflow_select_def rejecting_runner_def
  rejecting_select_def failing_runner_def failing_select_def labelled_ones_def
  entity_labels_def List.map_filter_def sums_up_entity_def

text \<open>
  Claim C6, as the code has it. The static handler does not skip a metric whose \<^verbatim>\<open>fn\<close>
  returned \<^verbatim>\<open>None\<close>: it hands the \<^verbatim>\<open>None\<close> to the runner among the compiled
  expressions. For a date-time column the mean is not applicable and the minimum is; with
  a runner that rejects an absent expression the unit with both metrics raises, where the
  unit with the minimum alone returns its row.
\<close>

theorem inapplicable_metric_counterexample:
  "metric_fn MeanMetric created_column = None
   \<and> static_entities [MinMetric, MeanMetric] created_column
       = [Some (label (MinFn (column ''created_at'' DateTime)) ''min''), None]
   \<and> fst (get_metrics_Static [MinMetric, MeanMetric] strict_runner plain_session
            created_column [])
       = Inl (RuntimeError none_rejected)
   \<and> returned_key (get_metrics_Static [MinMetric] strict_runner plain_session
          created_column []) ''min''
       = Some (VInt 1)"
  by (simp add: static_entities_def is_window_metric_def fn_defs created_column_def
        get_metrics_Static_def example_runner_defs handle_query_exception_def dict_of_row_def
        returned_key_def returned_dict_def none_rejected_def)

text \<open>
  Claim C6, amended. For each of the metrics mean, sum, stddev and min and every column
  whose type family the metric has no branch for, \<^verbatim>\<open>fn\<close> returns \<^verbatim>\<open>None\<close>; the model
  of \<^verbatim>\<open>fn\<close> has no branch that raises, as the source has none. The static handler passes
  that \<^verbatim>\<open>None\<close> on to the runner, in the metric's place among the compiled expressions;
  when the runner answers the statement with a row, the handler returns the row and leaves
  the session and the log as they were.
\<close>

theorem inapplicable_metric_passed_on:
  assumes "\<not> supports m (col_type c)"
  shows "metric_fn m c = None
     \<and> static_entities (ms1 @ m # ms2) c = static_entities ms1 c @ None # static_entities ms2 c
     \<and> (\<forall>r. select_first_from_sample runner
                  (static_entities ms1 c @ None # static_entities ms2 c) = Inr (Some r)
            \<longrightarrow> get_metrics_Static (ms1 @ m # ms2) runner session c lg
                  = (Inr (PDict (map_of r)), session, lg))"
proof -
  have n: "metric_fn m c = None"
    using assms by (simp add: metric_fn_None_iff)
  have s: "static_entities (ms1 @ m # ms2) c
             = static_entities ms1 c @ None # static_entities ms2 c"
    by (simp add: entities_append entities_Cons n)
  have "get_metrics_Static (ms1 @ m # ms2) runner session c lg
          = (Inr (PDict (map_of r)), session, lg)"
    if "select_first_from_sample runner
          (static_entities ms1 c @ None # static_entities ms2 c) = Inr (Some r)" for r
    unfolding get_metrics_Static_def s using that by (simp add: dict_of_row_def)
  with n s show ?thesis by blast
qed

theorem inapplicable_metric_passed_on_witness:
  "\<not> supports MeanMetric (col_type created_column)
   \<and> metric_fn MeanMetric created_column = None
   \<and> static_entities ([MinMetric] @ MeanMetric # [SumMetric]) created_column
       = [Some (label (MinFn (column ''created_at'' DateTime)) ''min''), None, None]
   \<and> select_first_from_sample tolerant_runner
         (static_entities [MinMetric] created_column @ None
            # static_entities [SumMetric] created_column)
       = Inr (Some [(''min'', VInt 1)])
   \<and> get_metrics_Static ([MinMetric] @ MeanMetric # [SumMetric]) tolerant_runner plain_session
         created_column []
       = (Inr (PDict (map_of [(''min'', VInt 1)])), plain_session, [])"
proof -
  have h: "\<not> supports MeanMetric (col_type created_column)"
    by (simp add: created_column_def)
  have e: "static_entities [MinMetric] created_column @ None
             # static_entities [SumMetric] created_column
           = [Some (label (MinFn (column ''created_at'' DateTime)) ''min''), None, None]"
    by (simp add: static_entities_def is_window_metric_def fn_defs created_column_def)
  have a: "select_first_from_sample tolerant_runner
         (static_entities [MinMetric] created_column @ None
            # static_entities [SumMetric] created_column)
       = Inr (Some [(''min'', VInt 1)])"
    unfolding e by (simp add: example_runner_defs)
  show ?thesis
    using h a e inapplicable_metric_passed_on [OF h, of "[MinMetric]" "[SumMetric]"
        tolerant_runner plain_session "[]"]
    by simp
qed


text \<open>
  Claim C7. For a concatenable column the mean, sum and stddev metrics compile to the
  aggregate applied to the length transform of the column, labelled with the metric's name;
  over the text column with the values a, bb, ccc the compiled mean evaluates to 2.
\<close>

theorem text_metrics_use_length:
  assumes "col_type c = Concatenable"
  shows "Mean_fn c = Some (label (avg (LenFn (column (col_name c) (col_type c)))) ''mean'')
   \<and> Sum_fn c = Some (label (SumFn (LenFn (column (col_name c) (col_type c)))) ''sum'')
   \<and> StdDev_fn c = Some (label (StdDevFn (LenFn (column (col_name c) (col_type c)))) ''stddev'')
   \<and> evaluate (Mean_fn name_column) names_rows = Some (VReal 2)"
  using assms
  by (simp add: fn_defs names_rows_def name_column_def nums_def List.map_filter_def evaluate_def)

theorem text_metrics_use_length_witness:
  "col_type name_column = Concatenable
   \<and> Mean_fn name_column
       = Some (label (avg (LenFn (column (col_name name_column) (col_type name_column)))) ''mean'')
   \<and> Sum_fn name_column
       = Some (label (SumFn (LenFn (column (col_name name_column) (col_type name_column)))) ''sum'')
   \<and> StdDev_fn name_column
       = Some (label (StdDevFn (LenFn (column (col_name name_column) (col_type name_column))))
                ''stddev'')
   \<and> evaluate (Mean_fn name_column) names_rows = Some (VReal 2)"
proof -
  have h: "col_type name_column = Concatenable"
    by (simp add: name_column_def)
  show ?thesis
    using h text_metrics_use_length [OF h]
    by blast
qed


section \<open>Properties of the sampler\<close>

lemmas sampler_defs = SamplerInterface_init_def random_sample_def truthy_str_def truthy_num_def
  get_sample_query_def partition_filter_handler_def get_sample_query_body_def aliased_def

lemma enumerate_mem: "(i, r) \<in> set (enumerate n rs) \<Longrightarrow> r \<in> set rs"
  by (auto simp: in_set_enumerate_eq)

lemma labelled_rows: "map fst [(r, f i). (i, r) \<leftarrow> enumerate 0 rs] = rs"
proof -
  have "map fst [(r, f i). (i, r) \<leftarrow> enumerate 0 rs] = map snd (enumerate 0 rs)"
    by (simp add: split_def o_def)
  then show ?thesis by simp
qed

lemma take_sort_fst_subset: "set (map fst (take n (sort_key snd L))) \<subseteq> set (map fst L)"
proof -
  have "set (take n (sort_key snd L)) \<subseteq> set L"
    using set_take_subset [of n "sort_key snd L"] by simp
  then have "fst ` set (take n (sort_key snd L)) \<subseteq> fst ` set L"
    by (rule image_mono)
  then show ?thesis by simp
qed

lemma sort_fst_set: "set (map fst (sort_key snd L)) = set (map fst L)"
  by simp

lemma sample_query_body_subset:
  "set (aliased (get_sample_query_body s)) \<subseteq> set (table_rows (table s))"
proof (cases "profile_sample_type s = Some PERCENTAGE")
  case True
  then show ?thesis
    unfolding aliased_def get_sample_query_body_def Let_def
    by (auto split: option.splits if_splits dest: enumerate_mem)
next
  case False
  let ?L = "[(r, ModuloFn (RandomNumFn (client s) i) (length (table_rows (table s)))).
               (i, r) \<leftarrow> enumerate 0 (table_rows (table s))]"
  have l: "map fst ?L = table_rows (table s)"
    by (rule labelled_rows)
  have full: "set (map fst (sort_key snd ?L)) \<subseteq> set (table_rows (table s))"
    using sort_fst_set [of ?L] unfolding l by (rule equalityD1)
  have part: "set (map fst (take n (sort_key snd ?L))) \<subseteq> set (table_rows (table s))" for n
    using take_sort_fst_subset [of n ?L] unfolding l .
  have body: "get_sample_query_body s
      = (case profile_sample s of None \<Rightarrow> sort_key snd ?L | Some n \<Rightarrow> take n (sort_key snd ?L))"
    using False by (simp add: get_sample_query_body_def Let_def)
  show ?thesis
  proof (cases "profile_sample s")
    case None
    then show ?thesis unfolding aliased_def body using full by (simp only: option.case)
  next
    case (Some n)
    then show ?thesis unfolding aliased_def body using part [of n] by (simp only: option.case)
  qed
qed

lemma get_sample_query_partitioned:
  "get_sample_query s = get_sample_query_body
     (s\<lparr>table := (table s)\<lparr>table_rows :=
          (case partition_details s of None \<Rightarrow> table_rows (table s)
                                      | Some pd \<Rightarrow> partitioned_table s pd)\<rparr>\<rparr>)"
  by (cases "partition_details s")
     (simp_all add: get_sample_query_def partition_filter_handler_def partitioned_table_def)

text \<open>
  Claim C3, as the code has it. Three configurations with a row count \<open>N\<close> at most the
  three rows of the table, none of which gives \<open>N\<close> rows. A row count of zero is no sample
  size to the sampler, and \<^verbatim>\<open>random_sample\<close> returns the whole table. With a literal
  query the sample is the query's result, here two rows for \<open>N = 1\<close>. With a partition the
  sample is drawn from the rows that pass the filter, here two rows for \<open>N = 3\<close>.
\<close>

theorem row_count_counterexample:
  "profile_sample zero_rows_sampler = Some 0
   \<and> profile_sample_type zero_rows_sampler = Some ROWS
   \<and> length (table_rows (table zero_rows_sampler)) = 3
   \<and> length (random_sample zero_rows_sampler) = 3
   \<and> profile_sample query_sampler = Some 1
   \<and> profile_sample_type query_sampler = Some ROWS
   \<and> length (table_rows (table query_sampler)) = 3
   \<and> length (random_sample query_sampler) = 2
   \<and> profile_sample partitioned_three_sampler = Some 3
   \<and> profile_sample_type partitioned_three_sampler = Some ROWS
   \<and> length (table_rows (table partitioned_three_sampler)) = 3
   \<and> length (random_sample partitioned_three_sampler) = 2"
  by (simp add: zero_rows_sampler_def query_sampler_def partitioned_three_sampler_def
        sampler_defs users_table_def users_rows_def rdn_sample_from_user_query_def
        query_text_def sqlite_client_def query_answer_def partition_filter_def id_range_def
        get_integer_range_filter_def)

text \<open>
  Claim C3, amended. With no literal query, a row-count configuration with \<open>0 < n\<close> and
  \<open>n\<close> at most the number of rows that pass the partition filter (all rows of the table
  when no partition is configured) makes \<^verbatim>\<open>random_sample\<close> return exactly \<open>n\<close> rows:
  those rows are counted, each is labelled with the modulo of its random number by that
  count, they are ordered by the label and the first \<open>n\<close> are taken.
\<close>

theorem row_count_sample_exact:
  assumes "\<not> truthy_str (profile_sample_query s)"
    and "profile_sample_type s = Some ROWS" and "profile_sample s = Some n" and "0 < n"
    and "rs = (case partition_details s of None \<Rightarrow> table_rows (table s)
                                           | Some pd \<Rightarrow> partitioned_table s pd)"
    and "n \<le> length rs"
  shows "length (random_sample s) = n
    \<and> random_sample s = map fst (take n (sort_key snd
          [(r, ModuloFn (RandomNumFn (client s) i) (length rs)). (i, r) \<leftarrow> enumerate 0 rs]))"
proof -
  let ?labelled = "[(r, ModuloFn (RandomNumFn (client s) i) (length rs)).
                     (i, r) \<leftarrow> enumerate 0 rs]"
  have len: "length ?labelled = length rs"
    by simp
  have q: "get_sample_query s = take n (sort_key snd ?labelled)"
    unfolding get_sample_query_partitioned assms(5) [symmetric]
    using assms(2,3) by (simp add: get_sample_query_body_def Let_def)
  have eq: "random_sample s = map fst (take n (sort_key snd ?labelled))"
    using assms(1,3,4) by (simp add: random_sample_def truthy_num_def aliased_def q)
  have "length (random_sample s) = n"
    unfolding eq using assms(6) len by simp
  with eq show ?thesis by simp
qed

theorem row_count_sample_exact_witness:
  "\<not> truthy_str (profile_sample_query partitioned_sampler)
   \<and> profile_sample_type partitioned_sampler = Some ROWS
   \<and> profile_sample partitioned_sampler = Some 1 \<and> (0::nat) < 1
   \<and> [[(''id'', VInt 2)], [(''id'', VInt 3)]]
       = (case partition_details partitioned_sampler of
            None \<Rightarrow> table_rows (table partitioned_sampler)
          | Some pd \<Rightarrow> partitioned_table partitioned_sampler pd)
   \<and> 1 \<le> length [[(''id'', VInt 2)], [(''id'', VInt 3)]]
   \<and> length (random_sample partitioned_sampler) = 1
   \<and> random_sample partitioned_sampler = [[(''id'', VInt 3)]]"
proof -
  have h1: "\<not> truthy_str (profile_sample_query partitioned_sampler)"
    and h2: "profile_sample_type partitioned_sampler = Some ROWS"
    and h3: "profile_sample partitioned_sampler = Some 1"
    and h4: "(0::nat) < 1"
    by (simp_all add: partitioned_sampler_def SamplerInterface_init_def truthy_str_def)
  have h5: "[[(''id'', VInt 2)], [(''id'', VInt 3)]]
       = (case partition_details partitioned_sampler of
            None \<Rightarrow> table_rows (table partitioned_sampler)
          | Some pd \<Rightarrow> partitioned_table partitioned_sampler pd)"
    by (simp add: partitioned_sampler_def SamplerInterface_init_def partitioned_table_def
          users_table_def users_rows_def partition_filter_def id_range_def
          get_integer_range_filter_def)
  have h6: "1 \<le> length [[(''id'', VInt 2)], [(''id'', VInt 3)]]"
    by simp
  have m: "(5::nat) mod Suc (Suc 0) = 1" "(4::nat) mod Suc (Suc 0) = 0"
    by (simp_all add: numeral_2_eq_2 [symmetric])
  have r: "random_sample partitioned_sampler = [[(''id'', VInt 3)]]"
    by (simp add: m add: partitioned_sampler_def sampler_defs users_table_def users_rows_def
          sqlite_client_def steady_random_def ModuloFn_def partition_filter_def id_range_def
          get_integer_range_filter_def enumerate_eq_zip)
  show ?thesis
    using h1 h2 h3 h4 h5 h6 r row_count_sample_exact [OF h1 h2 h3 h4 h5 h6]
    by blast
qed

text \<open>
  Claim C4, as the code has it. With a literal query \<^verbatim>\<open>random_sample\<close> returns the query's
  result before it looks at the partition: here the partition keeps the rows with id 2 and
  3, a row count of 1 is configured, and the sample is the two rows the query answers,
  with id 7 and 8.
\<close>

theorem partition_with_query_counterexample:
  "partition_details query_sampler = Some id_range
   \<and> profile_sample query_sampler = Some 1
   \<and> profile_sample_type query_sampler = Some ROWS
   \<and> partitioned_table query_sampler id_range = [[(''id'', VInt 2)], [(''id'', VInt 3)]]
   \<and> random_sample query_sampler = [[(''id'', VInt 7)], [(''id'', VInt 8)]]
   \<and> \<not> set (random_sample query_sampler) \<subseteq> set (partitioned_table query_sampler id_range)"
  by (simp add: query_sampler_def sampler_defs users_table_def users_rows_def
        rdn_sample_from_user_query_def query_text_def sqlite_client_def query_answer_def
        partitioned_table_def partition_filter_def id_range_def get_integer_range_filter_def)


text \<open>
  Claim C4, amended. With a partition configured (value list, integer range or time window)
  and no literal query, every row \<^verbatim>\<open>random_sample\<close> returns passes the partition filter,
  for every sampling configuration: when a sample size is configured the sample is drawn
  from the filtered rows, otherwise the filtered rows are returned as they are.
\<close>

theorem partition_filter_before_sampling:
  assumes "\<not> truthy_str (profile_sample_query s)" and "partition_details s = Some pd"
  shows "set (random_sample s) \<subseteq> set (partitioned_table s pd)
    \<and> (if truthy_num (profile_sample s)
        then random_sample s = aliased (get_sample_query_body
               (s\<lparr>table := (table s)\<lparr>table_rows := partitioned_table s pd\<rparr>\<rparr>))
        else random_sample s = partitioned_table s pd)"
proof -
  let ?s' = "s\<lparr>table := (table s)\<lparr>table_rows := partitioned_table s pd\<rparr>\<rparr>"
  have g: "get_sample_query s = get_sample_query_body ?s'"
    using assms(2) by (simp add: get_sample_query_def partition_filter_handler_def partitioned_table_def)
  have sub: "set (aliased (get_sample_query_body ?s')) \<subseteq> set (partitioned_table s pd)"
    using sample_query_body_subset [of ?s'] by simp
  show ?thesis
  proof (cases "truthy_num (profile_sample s)")
    case True
    then have "random_sample s = aliased (get_sample_query_body ?s')"
      using assms(1) g by (simp add: random_sample_def)
    with True sub show ?thesis by simp
  next
    case False
    then have "random_sample s = partitioned_table s pd"
      using assms by (simp add: random_sample_def)
    with False show ?thesis by simp
  qed
qed

theorem partition_filter_before_sampling_witness:
  "\<not> truthy_str (profile_sample_query partitioned_sampler)
   \<and> partition_details partitioned_sampler = Some id_range
   \<and> partitioned_table partitioned_sampler id_range = [[(''id'', VInt 2)], [(''id'', VInt 3)]]
   \<and> set (random_sample partitioned_sampler) \<subseteq> set (partitioned_table partitioned_sampler id_range)"
proof -
  have h1: "\<not> truthy_str (profile_sample_query partitioned_sampler)"
    and h2: "partition_details partitioned_sampler = Some id_range"
    by (simp_all add: partitioned_sampler_def SamplerInterface_init_def truthy_str_def)
  have p: "partitioned_table partitioned_sampler id_range = [[(''id'', VInt 2)], [(''id'', VInt 3)]]"
    by (simp add: partitioned_table_def partitioned_sampler_def SamplerInterface_init_def
          users_table_def users_rows_def partition_filter_def id_range_def
          get_integer_range_filter_def)
  show ?thesis
    using h1 h2 p partition_filter_before_sampling [OF h1 h2]
    by simp
qed


text \<open>
  Claim C5. With a literal profile query, \<^verbatim>\<open>random_sample\<close> is the result of that query,
  whatever the sample size, the sample type and the partition are, and
  \<^verbatim>\<open>fetch_sample_data\<close> returns the columns of the same query and its first 100 rows.
\<close>

theorem user_query_bypasses_sampling:
  assumes "profile_sample_query s = Some q" and "q \<noteq> []"
  shows "random_sample s
           = map (zip (result_keys (execute (client s) q))) (result_rows (execute (client s) q))
    \<and> random_sample (s\<lparr>profile_sample := n, profile_sample_type := ty, partition_details := pd\<rparr>)
           = random_sample s
    \<and> td_rows (fetch_sample_data s) = take 100 (result_rows (execute (client s) q))
    \<and> td_columns (fetch_sample_data s)
           = (case cursor_description (execute (client s) q) of
                Some d \<Rightarrow> d | None \<Rightarrow> result_keys (execute (client s) q))
    \<and> length (td_rows (fetch_sample_data s)) \<le> 100"
  using assms
  by (simp add: random_sample_def fetch_sample_data_def truthy_str_def
        rdn_sample_from_user_query_def fetch_sample_data_from_user_query_def query_text_def
        Let_def)

theorem user_query_bypasses_sampling_witness:
  "profile_sample_query query_sampler = Some ''SELECT id FROM users WHERE id > 6''
   \<and> ''SELECT id FROM users WHERE id > 6'' \<noteq> []
   \<and> random_sample query_sampler = [[(''id'', VInt 7)], [(''id'', VInt 8)]]
   \<and> fetch_sample_data query_sampler = \<lparr>td_columns = [''id''], td_rows = [[VInt 7], [VInt 8]]\<rparr>"
proof -
  have h1: "profile_sample_query query_sampler = Some ''SELECT id FROM users WHERE id > 6''"
    by (simp add: query_sampler_def SamplerInterface_init_def)
  have h2: "''SELECT id FROM users WHERE id > 6'' \<noteq> []"
    by simp
  have c: "execute (client query_sampler) = query_answer"
    by (simp add: query_sampler_def SamplerInterface_init_def sqlite_client_def)
  show ?thesis
    using h1 user_query_bypasses_sampling [OF h1 h2, of None None None]
    by (simp add: c query_answer_def TableData.equality)
qed


section \<open>Properties of the compilation of the median\<close>

lemma sql_round_minus_one: "1 \<le> x \<Longrightarrow> sql_round (x - 1) = sql_round x - 1"
proof -
  assume a: "1 \<le> x"
  have "x - 1 + 1 / 2 = (x + 1 / 2) - 1"
    by simp
  then have "\<lfloor>x - 1 + 1 / 2\<rfloor> = \<lfloor>x + 1 / 2\<rfloor> - 1"
    by (simp only: floor_diff_one)
  with a show ?thesis by (simp add: sql_round_def)
qed

text \<open>
  Claim C8, as the code has it. The text compiled for SQLite skips
  \<^verbatim>\<open>ROUND(COUNT(*) * percentile -1)\<close> rows, not \<^verbatim>\<open>round(count*p)\<close>: for the median of
  a column with four values the emitted offset is 1, where the claimed one is 2.
\<close>

theorem sqlite_offset_counterexample:
  "compile_MedianFn SQLite id_median = text_lines
     [''    (SELECT '',
      ''        id'',
      ''    FROM users'',
      ''    WHERE id IS NOT NULL'',
      ''    ORDER BY id'',
      ''    LIMIT 1'',
      ''    OFFSET ('',
      ''            SELECT ROUND(COUNT(*) * 0.5 -1)'',
      ''            FROM users'',
      ''            WHERE id IS NOT NULL'',
      ''        )'',
      ''    )'',
      ''    '']
   \<and> sqlite_offset 4 (1 / 2) = 1 \<and> spec_sqlite_offset 4 (1 / 2) = 2"
  by (simp add: compile_SQLite_def id_median_def sqlite_offset_def spec_sqlite_offset_def
        sql_round_def)

text \<open>
  Claim C8, amended. The compiled text is a function of the dialect and the element alone.
  A dialect with no registration of its own gets
  \<^verbatim>\<open>percentile_cont(p) WITHIN GROUP (ORDER BY col ASC)\<close>; Athena, Trino and Presto get
  \<^verbatim>\<open>approx_percentile(col, p)\<close>; SQLite gets a subquery that orders the values that are
  not null, limits to one row and skips \<^verbatim>\<open>ROUND(COUNT(*) * p -1)\<close> rows, which is one
  less than \<^verbatim>\<open>round(count*p)\<close> whenever \<open>count * p\<close> is at least 1.
\<close>

theorem median_strategy_by_dialect:
  "compile_MedianFn (OtherDialect d) e
     = ''percentile_cont('' @ med_percentile_2f e @ '') WITHIN GROUP (ORDER BY '' @ med_col e
         @ '' ASC)''
   \<and> compile_MedianFn Snowflake e = compile_MedianFn (OtherDialect d) e
   \<and> compile_MedianFn MariaDB e = compile_MedianFn (OtherDialect d) e
   \<and> compile_MedianFn Athena e
       = ''approx_percentile('' @ med_col e @ '', '' @ med_percentile_2f e @ '')''
   \<and> compile_MedianFn Trino e = compile_MedianFn Athena e
   \<and> compile_MedianFn Presto e = compile_MedianFn Athena e
   \<and> compile_MedianFn SQLite e = text_lines
     [''    (SELECT '',
      ''        '' @ med_col e,
      ''    FROM '' @ med_table e,
      ''    WHERE '' @ med_col e @ '' IS NOT NULL'',
      ''    ORDER BY '' @ med_col e,
      ''    LIMIT 1'',
      ''    OFFSET ('',
      ''            SELECT ROUND(COUNT(*) * '' @ med_percentile_str e @ '' -1)'',
      ''            FROM '' @ med_table e,
      ''            WHERE '' @ med_col e @ '' IS NOT NULL'',
      ''        )'',
      ''    )'',
      ''    '']
   \<and> sqlite_offset n p = sql_round (real n * p - 1)
   \<and> (1 \<le> real n * p \<longrightarrow> sqlite_offset n p = spec_sqlite_offset n p - 1)"
  by (simp add: compile_default_def compile_Athena_Trino_Presto_def compile_SQLite_def
        sqlite_offset_def spec_sqlite_offset_def sql_round_minus_one)

theorem median_strategy_by_dialect_witness:
  "1 \<le> real 4 * (1 / 2)
   \<and> sqlite_offset 4 (1 / 2) = spec_sqlite_offset 4 (1 / 2) - 1
   \<and> spec_sqlite_offset 4 (1 / 2) = 2
   \<and> compile_MedianFn Athena id_median = ''approx_percentile(id, 0.50)''"
proof -
  have h: "1 \<le> real 4 * (1 / 2)"
    by simp
  have s: "spec_sqlite_offset 4 (1 / 2) = 2"
    by (simp add: spec_sqlite_offset_def sql_round_def)
  note t = median_strategy_by_dialect [of "''oracle''" id_median 4 "1 / 2"]
  from t h have o: "sqlite_offset 4 (1 / 2) = spec_sqlite_offset 4 (1 / 2) - 1"
    by blast
  from t have a: "compile_MedianFn Athena id_median
      = ''approx_percentile('' @ med_col id_median @ '', '' @ med_percentile_2f id_median @ '')''"
    by blast
  have a': "compile_MedianFn Athena id_median = ''approx_percentile(id, 0.50)''"
    unfolding a by (simp add: id_median_def)
  from h o s a' show ?thesis by blast
qed


section \<open>Properties of the profiler interface\<close>

lemma name_degraded:
  "''sum'' = metric_name m \<Longrightarrow> m = SumMetric"
  "''mean'' = metric_name m \<Longrightarrow> m = MeanMetric"
  "''stddev'' = metric_name m \<Longrightarrow> m = StdDevMetric"
  by (cases m; simp)+

lemma wo_sum_entities_filter:
  "wo_sum_entities ms c
     = static_entities (filter (\<lambda>m. m \<notin> {SumMetric, StdDevMetric, MeanMetric}) ms) c"
  by (induction ms) (simp_all add: wo_sum_entities_def static_entities_def is_window_metric_def)

lemma wo_sum_labels:
  "set (entity_labels (wo_sum_entities ms c))
     = {metric_name m | m. m \<in> set ms \<and> m \<notin> {SumMetric, StdDevMetric, MeanMetric}
          \<and> supports m (col_type c)}"
proof (induction ms)
  case Nil
  show ?case by (simp add: entity_labels_def wo_sum_entities_def List.map_filter_def)
next
  case (Cons m ms)
  have step: "entity_labels (wo_sum_entities (m # ms) c)
      = (if m \<in> {SumMetric, StdDevMetric, MeanMetric} \<or> \<not> supports m (col_type c) then []
         else [metric_name m]) @ entity_labels (wo_sum_entities ms c)"
  proof (cases "metric_fn m c")
    case None
    then show ?thesis
      using metric_fn_None_iff [of m c]
      by (simp add: entity_labels_def wo_sum_entities_def List.map_filter_def
            is_window_metric_def)
  next
    case (Some e)
    then show ?thesis
      using metric_fn_None_iff [of m c] metric_fn_label [OF Some]
      by (simp add: entity_labels_def wo_sum_entities_def List.map_filter_def
            is_window_metric_def)
  qed
  show ?case unfolding step using Cons.IH by auto
qed

text \<open>
  Claim C2, as the code has it. On Snowflake's overflow error the static handler returns
  the row of the retry as it is. For the metrics mean, min, sum and stddev of a numeric
  column the returned dictionary has the minimum and no key for sum, mean or stddev: the
  keys are missing, not null.
\<close>

theorem overflow_row_counterexample:
  "select_first_from_sample overflow_runner (static_entities all_static id_column)
     = Inl overflow_error
   \<and> is_overflow (OrigErrno 100046) snowflake_session = Inr True
   \<and> returned_dict overflow_outcome \<noteq> None
   \<and> returned_key overflow_outcome ''min'' = Some (VInt 1)
   \<and> returned_key overflow_outcome ''sum'' = None
   \<and> returned_key overflow_outcome ''mean'' = None
   \<and> returned_key overflow_outcome ''stddev'' = None"
  by (simp add: overflow_outcome_def all_static_def get_metrics_Static_def
        compute_static_metrics_wo_sum_def static_entities_def wo_sum_entities_def
        is_window_metric_def is_overflow_def OVERFLOW_ERROR_CODES_def dict_of_row_def fn_defs
        id_column_def snowflake_session_def returned_key_def returned_dict_def
        example_runner_defs overflow_error_def)

text \<open>
  Claim C2, amended. When the statement of a static unit raises a \<^verbatim>\<open>ProgrammingError\<close>
  whose error number is among the overflow codes of the session's dialect, the handler
  logs that it computes without the sum and runs \<^verbatim>\<open>_compute_static_metrics_wo_sum\<close>,
  whose statement is the first one without sum, mean and stddev. When the runner answers
  the retry with a row, the handler returns that row as a dictionary; when the row is
  keyed by the labels of the expressions of the retry, its keys are the names of the
  metrics of the unit that are not degraded and apply to the column, and sum, mean and
  stddev are not among them.
\<close>

theorem overflow_retries_without_sum:
  assumes "select_first_from_sample runner (static_entities ms c)
             = Inl (ProgrammingError og msg)"
    and "is_overflow og session = Inr True"
  shows "get_metrics_Static ms runner session c lg
           = compute_static_metrics_wo_sum ms runner session c
               (lg @ [(INFO, ''Computing metrics without sum for '' @ runner_tablename runner
                              @ ''.'' @ col_name c)])
     \<and> wo_sum_entities ms c
           = static_entities (filter (\<lambda>m. m \<notin> {SumMetric, StdDevMetric, MeanMetric}) ms) c
     \<and> (\<forall>r. select_first_from_sample runner (wo_sum_entities ms c) = Inr (Some r) \<longrightarrow>
            get_metrics_Static ms runner session c lg
              = (Inr (PDict (map_of r)), session,
                 lg @ [(INFO, ''Computing metrics without sum for '' @ runner_tablename runner
                               @ ''.'' @ col_name c)])
          \<and> (map fst r = entity_labels (wo_sum_entities ms c) \<longrightarrow>
               dom (map_of r) = {metric_name m | m. m \<in> set ms
                   \<and> m \<notin> {SumMetric, StdDevMetric, MeanMetric} \<and> supports m (col_type c)}
             \<and> map_of r ''sum'' = None \<and> map_of r ''mean'' = None
             \<and> map_of r ''stddev'' = None))"
proof -
  let ?lg = "lg @ [(INFO, ''Computing metrics without sum for '' @ runner_tablename runner
                              @ ''.'' @ col_name c)]"
  have run: "get_metrics_Static ms runner session c lg
           = compute_static_metrics_wo_sum ms runner session c ?lg"
    by (simp add: get_metrics_Static_def assms)
  have ok: "get_metrics_Static ms runner session c lg = (Inr (PDict (map_of r)), session, ?lg)"
    if "select_first_from_sample runner (wo_sum_entities ms c) = Inr (Some r)" for r
    unfolding run compute_static_metrics_wo_sum_def using that by (simp add: dict_of_row_def)
  have keys: "dom (map_of r) = {metric_name m | m. m \<in> set ms
                   \<and> m \<notin> {SumMetric, StdDevMetric, MeanMetric} \<and> supports m (col_type c)}
             \<and> map_of r ''sum'' = None \<and> map_of r ''mean'' = None
             \<and> map_of r ''stddev'' = None"
    if k: "map fst r = entity_labels (wo_sum_entities ms c)" for r
  proof -
    have "dom (map_of r) = set (map fst r)"
      by (simp add: dom_map_of_conv_image_fst)
    then have d: "dom (map_of r) = {metric_name m | m. m \<in> set ms
            \<and> m \<notin> {SumMetric, StdDevMetric, MeanMetric} \<and> supports m (col_type c)}"
      using wo_sum_labels [of ms c] k by simp
    have "''sum'' \<notin> dom (map_of r)"
      unfolding d by (auto dest: name_degraded)
    moreover have "''mean'' \<notin> dom (map_of r)"
      unfolding d by (auto dest: name_degraded)
    moreover have "''stddev'' \<notin> dom (map_of r)"
      unfolding d by (auto dest: name_degraded)
    ultimately have "map_of r ''sum'' = None \<and> map_of r ''mean'' = None
        \<and> map_of r ''stddev'' = None"
      by (simp add: domIff)
    with d show ?thesis by simp
  qed
  from run wo_sum_entities_filter [of ms c] ok keys show ?thesis
    by blast
qed

theorem overflow_retries_without_sum_witness:
  "select_first_from_sample overflow_runner (static_entities all_static id_column)
     = Inl (ProgrammingError (OrigErrno 100046) ''Numeric value is out of range'')
   \<and> is_overflow (OrigErrno 100046) snowflake_session = Inr True
   \<and> select_first_from_sample overflow_runner (wo_sum_entities all_static id_column)
       = Inr (Some [(''min'', VInt 1)])
   \<and> map fst [(''min'', VInt 1)] = entity_labels (wo_sum_entities all_static id_column)
   \<and> get_metrics_Static all_static overflow_runner snowflake_session id_column []
       = (Inr (PDict (map_of [(''min'', VInt 1)])), snowflake_session,
          [(INFO, ''Computing metrics without sum for users.id'')])
   \<and> map_of [(''min'', VInt 1)] ''sum'' = None"
proof -
  have h1: "select_first_from_sample overflow_runner (static_entities all_static id_column)
     = Inl (ProgrammingError (OrigErrno 100046) ''Numeric value is out of range'')"
    by (simp add: all_static_def static_entities_def is_window_metric_def fn_defs id_column_def
          example_runner_defs overflow_error_def)
  have h2: "is_overflow (OrigErrno 100046) snowflake_session = Inr True"
    by (simp add: is_overflow_def OVERFLOW_ERROR_CODES_def snowflake_session_def)
  have h3: "select_first_from_sample overflow_runner (wo_sum_entities all_static id_column)
       = Inr (Some [(''min'', VInt 1)])"
    by (simp add: all_static_def wo_sum_entities_def is_window_metric_def fn_defs id_column_def
          example_runner_defs)
  have h4: "map fst [(''min'', VInt 1)] = entity_labels (wo_sum_entities all_static id_column)"
    by (simp add: all_static_def wo_sum_entities_def is_window_metric_def fn_defs id_column_def
          entity_labels_def List.map_filter_def)
  have n: "runner_tablename overflow_runner = ''users''" "col_name id_column = ''id''"
    by (simp_all add: overflow_runner_def id_column_def)
  note t = overflow_retries_without_sum [OF h1 h2, of "[]"]
  from t h3 have g: "get_metrics_Static all_static overflow_runner snowflake_session id_column []
       = (Inr (PDict (map_of [(''min'', VInt 1)])), snowflake_session,
          [] @ [(INFO, ''Computing metrics without sum for '' @ runner_tablename overflow_runner
                        @ ''.'' @ col_name id_column)])"
    by blast
  from t h3 h4 have s: "map_of [(''min'', VInt 1)] ''sum'' = None"
    by blast
  have g': "get_metrics_Static all_static overflow_runner snowflake_session id_column []
       = (Inr (PDict (map_of [(''min'', VInt 1)])), snowflake_session,
          [(INFO, ''Computing metrics without sum for users.id'')])"
    unfolding g by (simp add: n)
  from h1 h2 h3 h4 g' s show ?thesis
    by blast
qed














section \<open>Properties of the aggregation\<close>





end
